theory Spec2Isabelle
  imports Main
begin

section \<open>Data model\<close>

text \<open>
  A goal event as the rating engine reads it. \<open>team\<close> is the string the code compares
  with \<open>'home'\<close> and \<open>'away'\<close>; \<open>minute\<close>, \<open>scorer\<close> and \<open>type\<close> may be
  absent from the object (\<open>None\<close>). Minutes and scores are integers.
\<close>

record goal =
  team :: string
  minute :: "int option"
  scorer :: "string option"
  goal_type :: "string option"

text \<open>
  A property of a JavaScript object that is either not there (\<open>undefined\<close>), \<open>null\<close>,
  or holds a value. The destructuring default \<open>goals = []\<close> applies to the first case only.
\<close>

datatype 'a field = Missing | Null | Present 'a

text \<open>
  The match object handed to \<open>calculateRating\<close> and to \<open>saveMatch\<close>
  (\<open>ident\<close> is the property \<open>id\<close>, the identifier the data source assigns).
\<close>

record matchData =
  ident :: int
  homeTeam :: string
  awayTeam :: string
  homeScore :: int
  awayScore :: int
  date :: string
  status :: string
  competition :: string
  goals :: "goal list field"

record breakdown =
  goalVolume :: int
  goalTiming :: int
  goalDistribution :: int

record match_summary =
  summary_homeTeam :: string
  summary_awayTeam :: string
  summary_score :: string
  totalGoals :: int

record ratingResult =
  totalScore :: int
  breakdown :: breakdown
  rating :: string
  match_summary :: match_summary

datatype error = TypeError | WriteError

section \<open>The rating engine (ratingEngine.js)\<close>

definition maxGoalVolumeScore :: int where
  "maxGoalVolumeScore = 50"

definition maxGoalTimingScore :: int where
  "maxGoalTimingScore = 25"

definition maxGoalDistributionScore :: int where
  "maxGoalDistributionScore = 25"

definition calculateGoalVolumeScore :: "int \<Rightarrow> int" where
  "calculateGoalVolumeScore t =
     (if t = 0 then 0
      else if t = 1 then 5
      else if t = 2 then 15
      else if t = 3 then 25
      else if t = 4 then 35
      else if t = 5 then 45
      else 50)"

text \<open>\<open>goal.minute || 0\<close>: an absent minute (and the minute 0 itself) reads as 0.\<close>

definition minute_or_zero :: "goal \<Rightarrow> int" where
  "minute_or_zero g = (case minute g of None \<Rightarrow> 0 | Some m \<Rightarrow> m)"

text \<open>The body of the \<open>forEach\<close> of \<open>calculateGoalTimingScore\<close>, in the source's order.\<close>

definition timing_step :: "int \<Rightarrow> goal \<Rightarrow> int" where
  "timing_step s g =
     (let m = minute_or_zero g;
          s1 = (if m \<le> 15 then s + 3 else s);
          s2 = (if m \<ge> 75 then s1 + 3 else s1);
          s3 = (if m \<ge> 90 then s2 + 5 else s2);
          s4 = (if m \<ge> 80 then s3 + 2 else s3)
      in s4)"

definition calculateGoalTimingScore :: "goal list \<Rightarrow> int" where
  "calculateGoalTimingScore gs = min (foldl timing_step 0 gs) maxGoalTimingScore"

text \<open>
  \<open>goal.minute >= 80\<close> in the distribution walk reads the property itself: an absent
  minute compares as false.
\<close>

definition minute_ge_80 :: "goal \<Rightarrow> bool" where
  "minute_ge_80 g = (case minute g of None \<Rightarrow> False | Some m \<Rightarrow> m \<ge> 80)"

text \<open>The three variables the distribution walk updates.\<close>

record walk =
  score :: int
  homeGoals :: int
  awayGoals :: int

text \<open>
  The body of the \<open>forEach\<close> of \<open>calculateGoalDistributionScore\<close>: the scoring side's
  tally is incremented first, the three checks then read the incremented tally. A goal
  whose team is neither \<open>'home'\<close> nor \<open>'away'\<close> changes nothing.
\<close>

definition goal_step :: "walk \<Rightarrow> goal \<Rightarrow> walk" where
  "goal_step w g =
     (if team g = ''home'' then
        (let h = homeGoals w + 1;
             a = awayGoals w;
             s1 = (if h > a \<and> a > 0 then score w + 4 else score w);
             s2 = (if h = a \<and> a > 0 then s1 + 3 else s1);
             s3 = (if minute_ge_80 g \<and> h > a then s2 + 2 else s2)
         in \<lparr>score = s3, homeGoals = h, awayGoals = a\<rparr>)
      else if team g = ''away'' then
        (let a = awayGoals w + 1;
             h = homeGoals w;
             s1 = (if a > h \<and> h > 0 then score w + 4 else score w);
             s2 = (if a = h \<and> h > 0 then s1 + 3 else s1);
             s3 = (if minute_ge_80 g \<and> a > h then s2 + 2 else s2)
         in \<lparr>score = s3, homeGoals = h, awayGoals = a\<rparr>)
      else w)"

text \<open>The state of the walk before its first goal.\<close>

definition walk_start :: "matchData \<Rightarrow> walk" where
  "walk_start m =
     \<lparr>score = (if homeScore m > 0 \<and> awayScore m > 0 then 15 else 0),
      homeGoals = 0, awayGoals = 0\<rparr>"

definition calculateGoalDistributionScore :: "matchData \<Rightarrow> goal list \<Rightarrow> int" where
  "calculateGoalDistributionScore m gs =
     min (score (foldl goal_step (walk_start m) gs)) maxGoalDistributionScore"

definition getRatingCategory :: "int \<Rightarrow> string" where
  "getRatingCategory s =
     (if s \<ge> 90 then ''ALL TIME LEGENDARY''
      else if s \<ge> 75 then ''AMAZING''
      else if s \<ge> 60 then ''REALLY Good''
      else if s \<ge> 30 then ''Good''
      else if s \<ge> 15 then ''Average''
      else ''Very Poor'')"

text \<open>Decimal rendering of an integer, as a template literal prints it.\<close>

fun digits :: "nat \<Rightarrow> string" where
  "digits n =
     (if n < 10 then [''0123456789'' ! n]
      else digits (n div 10) @ [''0123456789'' ! (n mod 10)])"

definition show_int :: "int \<Rightarrow> string" where
  "show_int i = (if i < 0 then ''-'' @ digits (nat (- i)) else digits (nat i))"

text \<open>
  \<open>calculateRating\<close> after the destructuring of its argument, with \<open>gs\<close> the value
  bound to \<open>goals\<close>. \<open>Math.round\<close> is the identity on the integers computed here.
\<close>

definition rate :: "matchData \<Rightarrow> goal list \<Rightarrow> ratingResult" where
  "rate m gs =
     (let goalVolumeScore = calculateGoalVolumeScore (homeScore m + awayScore m);
          goalTimingScore = calculateGoalTimingScore gs;
          goalDistributionScore = calculateGoalDistributionScore m gs;
          total = goalVolumeScore + goalTimingScore + goalDistributionScore
      in \<lparr>totalScore = total,
          breakdown = \<lparr>goalVolume = goalVolumeScore,
                       goalTiming = goalTimingScore,
                       goalDistribution = goalDistributionScore\<rparr>,
          rating = getRatingCategory total,
          match_summary =
            \<lparr>summary_homeTeam = homeTeam m,
             summary_awayTeam = awayTeam m,
             summary_score = show_int (homeScore m) @ ''-'' @ show_int (awayScore m),
             totalGoals = homeScore m + awayScore m\<rparr>\<rparr>)"

text \<open>
  \<open>calculateRating\<close>: an absent \<open>goals\<close> property takes the default \<open>[]\<close>; a \<open>null\<close>
  one does not, and \<open>goals.forEach\<close> then throws a TypeError.
\<close>

definition calculateRating :: "matchData \<Rightarrow> error + ratingResult" where
  "calculateRating m =
     (case goals m of
        Missing \<Rightarrow> Inr (rate m [])
      | Null \<Rightarrow> Inl TypeError
      | Present gs \<Rightarrow> Inr (rate m gs))"

section \<open>The JSON store (database.js)\<close>

text \<open>
  A stored match and a stored rating (\<open>row_id\<close> and \<open>rating_id\<close> are the property
  \<open>id\<close> of each). \<open>row_goals\<close> stands for the JSON text of \<open>goals || []\<close>: the list
  that text encodes.
\<close>

record match_row =
  row_id :: int
  api_id :: int
  home_team :: string
  away_team :: string
  home_score :: int
  away_score :: int
  row_date :: string
  row_status :: string
  row_competition :: string
  row_goals :: "goal list"
  watchability_score :: int
  rating_category :: string
  created_at :: string

record rating_row =
  rating_id :: int
  match_id :: int
  goal_volume_score :: int
  goal_timing_score :: int
  goal_distribution_score :: int
  total_score :: int
  rating_row_category :: string
  rating_created_at :: string

record database =
  matches :: "match_row list"
  ratings :: "rating_row list"
  nextMatchId :: int
  nextRatingId :: int
  isVercel :: bool

text \<open>
  What one call of \<open>saveMatch\<close> reads from outside the store: the two clock readings
  \<open>new Date().toISOString()\<close> and whether the file writes of \<open>saveData\<close> succeed.
\<close>

record io =
  now_match :: string
  now_rating :: string
  write_ok :: bool

text \<open>The store the constructor builds.\<close>

definition new_database :: "bool \<Rightarrow> database" where
  "new_database v =
     \<lparr>matches = [], ratings = [], nextMatchId = 1, nextRatingId = 1, isVercel = v\<rparr>"

text \<open>
  \<open>saveData\<close>: nothing to do in memory-only mode; otherwise both arrays are written out
  whole, and a failed write is rethrown.
\<close>

definition saveData :: "bool \<Rightarrow> database \<Rightarrow> error + unit" where
  "saveData ok db = (if isVercel db then Inr () else if ok then Inr () else Inl WriteError)"

text \<open>
  \<open>saveMatch\<close> returns the internal id, or the error it rethrows, together with the
  store as the call leaves it: the two rows are pushed before \<open>saveData\<close> runs, so they
  stay in memory when the write fails.
\<close>

definition saveMatch ::
  "io \<Rightarrow> matchData \<Rightarrow> ratingResult \<Rightarrow> database \<Rightarrow> (error + int) \<times> database" where
  "saveMatch e md rd db =
     (case find (\<lambda>m. api_id m = ident md) (matches db) of
        Some existingMatch \<Rightarrow> (Inr (row_id existingMatch), db)
      | None \<Rightarrow>
          (let newMatch =
                 \<lparr>row_id = nextMatchId db,
                  api_id = ident md,
                  home_team = homeTeam md,
                  away_team = awayTeam md,
                  home_score = homeScore md,
                  away_score = awayScore md,
                  row_date = date md,
                  row_status = status md,
                  row_competition = competition md,
                  row_goals = (case goals md of Present gs \<Rightarrow> gs | _ \<Rightarrow> []),
                  watchability_score = totalScore rd,
                  rating_category = rating rd,
                  created_at = now_match e\<rparr>;
               newRating =
                 \<lparr>rating_id = nextRatingId db,
                  match_id = row_id newMatch,
                  goal_volume_score = goalVolume (breakdown rd),
                  goal_timing_score = goalTiming (breakdown rd),
                  goal_distribution_score = goalDistribution (breakdown rd),
                  total_score = totalScore rd,
                  rating_row_category = rating rd,
                  rating_created_at = now_rating e\<rparr>;
               db' = db\<lparr>matches := matches db @ [newMatch],
                        ratings := ratings db @ [newRating],
                        nextMatchId := nextMatchId db + 1,
                        nextRatingId := nextRatingId db + 1\<rparr>
           in (case saveData (write_ok e) db' of
                 Inl err \<Rightarrow> (Inl err, db')
               | Inr _ \<Rightarrow> (Inr (row_id newMatch), db'))))"

section \<open>Notions of the specification\<close>

text \<open>The category table of the specification: lowest score, highest score, label.\<close>

definition category_bands :: "(int \<times> int \<times> string) list" where
  "category_bands =
     [(90, 100, ''ALL TIME LEGENDARY''),
      (75, 89, ''AMAZING''),
      (60, 74, ''REALLY Good''),
      (30, 59, ''Good''),
      (15, 29, ''Average''),
      (0, 14, ''Very Poor'')]"

definition in_band :: "int \<Rightarrow> int \<times> int \<times> string \<Rightarrow> bool" where
  "in_band s b = (fst b \<le> s \<and> s \<le> fst (snd b))"

text \<open>
  The timing score in the specification's words: each goal collects every band its
  minute lies in, an absent minute counting as 0, and the sum is clamped to 0..25.
\<close>

definition band_points :: "int \<Rightarrow> int" where
  "band_points m =
     (if m \<le> 15 then 3 else 0) + (if m \<ge> 75 then 3 else 0)
       + (if m \<ge> 80 then 2 else 0) + (if m \<ge> 90 then 5 else 0)"

definition clamp :: "int \<Rightarrow> int \<Rightarrow> int \<Rightarrow> int" where
  "clamp lo hi x = max lo (min hi x)"

definition timing_spec :: "goal list \<Rightarrow> int" where
  "timing_spec gs =
     clamp 0 25 (sum_list (map (\<lambda>g. band_points (case minute g of None \<Rightarrow> 0 | Some m \<Rightarrow> m)) gs))"

text \<open>
  The normalisation the specification describes: goals in ascending minute, equal minutes
  in their original order (\<open>sort_key\<close> is a stable insertion sort).
\<close>

definition sort_by_minute :: "goal list \<Rightarrow> goal list" where
  "sort_by_minute gs = sort_key minute_or_zero gs"

text \<open>
  The three bonuses of the walk, as conditions on the walk's state before a goal and the
  goal: the scoring side's tally is read after its increment.
\<close>

definition comeback_awarded :: "walk \<Rightarrow> goal \<Rightarrow> bool" where
  "comeback_awarded w g =
     ((team g = ''home'' \<and> homeGoals w + 1 > awayGoals w \<and> awayGoals w > 0) \<or>
      (team g = ''away'' \<and> awayGoals w + 1 > homeGoals w \<and> homeGoals w > 0))"

definition equalizer_awarded :: "walk \<Rightarrow> goal \<Rightarrow> bool" where
  "equalizer_awarded w g =
     ((team g = ''home'' \<and> homeGoals w + 1 = awayGoals w \<and> awayGoals w > 0) \<or>
      (team g = ''away'' \<and> awayGoals w + 1 = homeGoals w \<and> homeGoals w > 0))"

definition late_winner_awarded :: "walk \<Rightarrow> goal \<Rightarrow> bool" where
  "late_winner_awarded w g =
     ((team g = ''home'' \<and> minute_ge_80 g \<and> homeGoals w + 1 > awayGoals w) \<or>
      (team g = ''away'' \<and> minute_ge_80 g \<and> awayGoals w + 1 > homeGoals w))"

text \<open>A goal with its absent minute filled in as 0.\<close>

definition minute_defaulted :: "goal \<Rightarrow> goal" where
  "minute_defaulted g = (case minute g of None \<Rightarrow> g\<lparr>minute := Some 0\<rparr> | Some _ \<Rightarrow> g)"

text \<open>Two goal events that differ at most in \<open>scorer\<close> and \<open>type\<close>.\<close>

definition same_team_minute :: "goal \<Rightarrow> goal \<Rightarrow> bool" where
  "same_team_minute g g' = (team g = team g' \<and> minute g = minute g')"

text \<open>
  The records stored for an external identifier: the matches carrying it, and the
  ratings that refer to one of those matches.
\<close>

definition stored_matches :: "int \<Rightarrow> database \<Rightarrow> match_row list" where
  "stored_matches x db = filter (\<lambda>m. api_id m = x) (matches db)"

definition stored_ratings :: "int \<Rightarrow> database \<Rightarrow> rating_row list" where
  "stored_ratings x db =
     filter (\<lambda>r. match_id r \<in> set (map row_id (stored_matches x db))) (ratings db)"

text \<open>
  A consistent store: no external identifier is stored twice, every stored match has
  exactly one rating, and no row refers to an internal id that is still to be handed out.
\<close>

definition store_ok :: "database \<Rightarrow> bool" where
  "store_ok db =
     (distinct (map api_id (matches db)) \<and>
      list_all (\<lambda>m. row_id m < nextMatchId db \<and>
                     length (filter (\<lambda>r. match_id r = row_id m) (ratings db)) = 1)
               (matches db) \<and>
      list_all (\<lambda>r. match_id r < nextMatchId db) (ratings db))"

text \<open>What the distribution walk reads of a goal, and what the whole engine reads of it.\<close>

definition walk_key :: "goal \<Rightarrow> string \<times> bool" where
  "walk_key g = (team g, minute_ge_80 g)"

definition scored_alike :: "goal \<Rightarrow> goal \<Rightarrow> bool" where
  "scored_alike g g' = (team g = team g' \<and> minute_or_zero g = minute_or_zero g')"

section \<open>Sample inputs\<close>

definition home_goal :: "int \<Rightarrow> goal" where
  "home_goal n = \<lparr>team = ''home'', minute = Some n, scorer = None, goal_type = None\<rparr>"

definition away_goal :: "int \<Rightarrow> goal" where
  "away_goal n = \<lparr>team = ''away'', minute = Some n, scorer = None, goal_type = None\<rparr>"

definition sample_match :: "int \<Rightarrow> int \<Rightarrow> int \<Rightarrow> goal list field \<Rightarrow> matchData" where
  "sample_match x h a gs =
     \<lparr>ident = x, homeTeam = ''Home FC'', awayTeam = ''Away FC'', homeScore = h, awayScore = a,
      date = ''2025-09-13T11:30:00Z'', status = ''FINISHED'', competition = ''Premier League'',
      goals = gs\<rparr>"

text \<open>The goals of the specification's scenario A, a 4-3 match.\<close>

definition scenario_A_goals :: "goal list" where
  "scenario_A_goals =
     [home_goal 12, away_goal 28, home_goal 35, away_goal 50, home_goal 67, away_goal 74,
      home_goal 89]"

text \<open>A goal without a minute, and the same goal with a scorer and a type recorded.\<close>

definition untimed_goal :: goal where
  "untimed_goal = \<lparr>team = ''home'', minute = None, scorer = None, goal_type = None\<rparr>"

definition untimed_penalty :: goal where
  "untimed_penalty =
     \<lparr>team = ''home'', minute = None, scorer = Some ''Unknown'', goal_type = Some ''PENALTY''\<rparr>"

definition sample_rating :: ratingResult where
  "sample_rating = rate (sample_match 7 1 0 Missing) []"

definition sample_io :: "bool \<Rightarrow> io" where
  "sample_io ok = \<lparr>now_match = ''2025-09-19T01:38:50.818Z'',
                   now_rating = ''2025-09-19T01:38:50.818Z'', write_ok = ok\<rparr>"

text \<open>
  A store as \<open>loadData\<close> leaves it when the matches file exists and the ratings file does
  not: the match with external identifier 7 has no rating.
\<close>

definition matches_only_store :: database where
  "matches_only_store =
     \<lparr>matches = [\<lparr>row_id = 1, api_id = 7, home_team = ''Home FC'', away_team = ''Away FC'',
                  home_score = 1, away_score = 0, row_date = ''2025-09-13T11:30:00Z'',
                  row_status = ''FINISHED'', row_competition = ''Premier League'',
                  row_goals = [], watchability_score = 5, rating_category = ''Very Poor'',
                  created_at = ''2025-09-19T01:38:50.818Z''\<rparr>],
      ratings = [], nextMatchId = 2, nextRatingId = 1, isVercel = False\<rparr>"

lemmas sample_defs = home_goal_def away_goal_def sample_match_def scenario_A_goals_def
  untimed_goal_def untimed_penalty_def sample_io_def

lemmas engine_defs = calculateRating_def rate_def calculateGoalVolumeScore_def
  calculateGoalTimingScore_def timing_step_def minute_or_zero_def
  calculateGoalDistributionScore_def walk_start_def goal_step_def minute_ge_80_def
  maxGoalTimingScore_def maxGoalDistributionScore_def getRatingCategory_def
  show_int_def Let_def

section \<open>Goal volume\<close>

text \<open>
  C2. For every non-negative total, the volume score is the fixed table 0, 5, 15, 25, 35,
  45 for 0 to 5 goals and 50 from 6 goals on; so it lies in {0, 5, 15, 25, 35, 45, 50}
  and never decreases when the total grows.
\<close>

theorem volume_table:
  assumes "0 \<le> t"
  shows "calculateGoalVolumeScore t = (if 6 \<le> t then 50 else [0, 5, 15, 25, 35, 45] ! nat t)
       \<and> calculateGoalVolumeScore t \<in> {0, 5, 15, 25, 35, 45, 50}
       \<and> (\<forall>u. t \<le> u \<longrightarrow> calculateGoalVolumeScore t \<le> calculateGoalVolumeScore u)"
proof -
  from assms have cases: "t = 0 \<or> t = 1 \<or> t = 2 \<or> t = 3 \<or> t = 4 \<or> t = 5 \<or> 6 \<le> t"
    by arith
  have tab: "calculateGoalVolumeScore t = (if 6 \<le> t then 50 else [0, 5, 15, 25, 35, 45] ! nat t)"
    using cases by (auto simp: calculateGoalVolumeScore_def)
  have rng: "calculateGoalVolumeScore t \<in> {0, 5, 15, 25, 35, 45, 50}"
    by (simp add: calculateGoalVolumeScore_def)
  have mono: "\<forall>u. t \<le> u \<longrightarrow> calculateGoalVolumeScore t \<le> calculateGoalVolumeScore u"
    using assms by (auto simp: calculateGoalVolumeScore_def)
  from tab rng mono show ?thesis by blast
qed

theorem volume_table_witness:
  "(0::int) \<le> 3 \<and> calculateGoalVolumeScore 3 = 25
     \<and> calculateGoalVolumeScore 3 \<le> calculateGoalVolumeScore 7"
  using volume_table [of 3] by (simp add: calculateGoalVolumeScore_def)

text \<open>
  C10. For every negative total, the volume score is 50, the value for six goals or more:
  only the values 0 to 5 are tested before the default branch.
\<close>

theorem volume_negative:
  "n < 0 \<Longrightarrow> calculateGoalVolumeScore n = 50
     \<and> calculateGoalVolumeScore n = calculateGoalVolumeScore 6"
  by (simp add: calculateGoalVolumeScore_def)

theorem volume_negative_witness:
  "(-1::int) < 0 \<and> calculateGoalVolumeScore (-1) = 50"
  using volume_negative [of "-1"] by simp

section \<open>Categories\<close>

text \<open>
  C4. For every total score from 0 to 100, exactly one band of the category table
  contains the score, and \<open>getRatingCategory\<close> returns that band's label: ALL TIME
  LEGENDARY from 90, AMAZING from 75, REALLY Good from 60, Good from 30, Average from 15,
  Very Poor below.
\<close>

theorem category_partition:
  assumes "0 \<le> s" and "s \<le> 100"
  shows "map (snd \<circ> snd) (filter (in_band s) category_bands) = [getRatingCategory s]
       \<and> (getRatingCategory s = ''ALL TIME LEGENDARY'' \<longleftrightarrow> 90 \<le> s)
       \<and> (getRatingCategory s = ''AMAZING'' \<longleftrightarrow> 75 \<le> s \<and> s < 90)
       \<and> (getRatingCategory s = ''REALLY Good'' \<longleftrightarrow> 60 \<le> s \<and> s < 75)
       \<and> (getRatingCategory s = ''Good'' \<longleftrightarrow> 30 \<le> s \<and> s < 60)
       \<and> (getRatingCategory s = ''Average'' \<longleftrightarrow> 15 \<le> s \<and> s < 30)
       \<and> (getRatingCategory s = ''Very Poor'' \<longleftrightarrow> s < 15)"
  using assms by (auto simp: category_bands_def in_band_def getRatingCategory_def)

theorem category_partition_witness:
  "(0::int) \<le> 17 \<and> (17::int) \<le> 100 \<and> getRatingCategory 17 = ''Average''
     \<and> map (snd \<circ> snd) (filter (in_band 17) category_bands) = [''Average'']"
  using category_partition [of 17] by (simp add: getRatingCategory_def)

section \<open>Scenarios\<close>

text \<open>
  C7. A 1-0 match whose only goal is a home goal at minute 90 is rated volume 5,
  timing 10, distribution 2, total 17, category Average.
\<close>

theorem scenario_C:
  "calculateRating
     \<lparr>ident = i, homeTeam = ht, awayTeam = at, homeScore = 1, awayScore = 0,
      date = d, status = st, competition = c,
      goals = Present [\<lparr>team = ''home'', minute = Some 90, scorer = sc, goal_type = ty\<rparr>]\<rparr>
   = Inr \<lparr>totalScore = 17,
          breakdown = \<lparr>goalVolume = 5, goalTiming = 10, goalDistribution = 2\<rparr>,
          rating = ''Average'',
          match_summary = \<lparr>summary_homeTeam = ht, summary_awayTeam = at,
                           summary_score = ''1-0'', totalGoals = 1\<rparr>\<rparr>"
  by (simp add: engine_defs)

section \<open>Goal timing\<close>

lemma timing_step_points:
  "timing_step s g = s + band_points (minute_or_zero g)"
  by (simp add: timing_step_def band_points_def Let_def)

lemma foldl_timing_step:
  "foldl timing_step s gs = s + sum_list (map (\<lambda>g. band_points (minute_or_zero g)) gs)"
  by (induction gs arbitrary: s) (simp_all add: timing_step_points)

lemma band_points_nonneg: "0 \<le> band_points m"
  by (simp add: band_points_def)

lemma sum_band_points_nonneg:
  "0 \<le> sum_list (map (\<lambda>g. band_points (minute_or_zero g)) gs)"
  by (induction gs) (simp_all add: band_points_nonneg)

lemma timing_bounds: "0 \<le> calculateGoalTimingScore gs \<and> calculateGoalTimingScore gs \<le> 25"
  using sum_band_points_nonneg [of gs]
  by (simp add: calculateGoalTimingScore_def foldl_timing_step maxGoalTimingScore_def)

text \<open>
  C3. For every list of goals, the timing score is the sum of the goals' band points
  clamped to 0..25, where a goal collects 3 for a minute up to 15, 3 from minute 75,
  2 from minute 80 and 5 from minute 90, all that apply, and an absent minute counts
  as 0; a goal at minute 90 collects 3 + 2 + 5.
\<close>

theorem timing_refines_spec:
  "calculateGoalTimingScore gs = timing_spec gs \<and> band_points 90 = 3 + 2 + 5"
proof -
  have same: "(\<lambda>g. band_points (case minute g of None \<Rightarrow> 0 | Some m \<Rightarrow> m))
      = (\<lambda>g. band_points (minute_or_zero g))"
    by (simp add: minute_or_zero_def)
  have "calculateGoalTimingScore gs = timing_spec gs"
    using sum_band_points_nonneg [of gs]
    by (simp add: calculateGoalTimingScore_def timing_spec_def clamp_def same
        foldl_timing_step maxGoalTimingScore_def)
  moreover have "band_points 90 = 3 + 2 + 5"
    by (simp add: band_points_def)
  ultimately show ?thesis by simp
qed

section \<open>Goal distribution\<close>

lemma goal_step_score:
  "score (goal_step w g) = score w + (if comeback_awarded w g then 4 else 0)
      + (if equalizer_awarded w g then 3 else 0) + (if late_winner_awarded w g then 2 else 0)"
  by (simp add: goal_step_def comeback_awarded_def equalizer_awarded_def
      late_winner_awarded_def Let_def)

lemma comeback_excludes_equalizer: "\<not> (comeback_awarded w g \<and> equalizer_awarded w g)"
  by (auto simp: comeback_awarded_def equalizer_awarded_def)

lemma equalizer_excludes_late_winner: "\<not> (equalizer_awarded w g \<and> late_winner_awarded w g)"
  by (auto simp: equalizer_awarded_def late_winner_awarded_def)

lemma foldl_goal_step_mono: "score w \<le> score (foldl goal_step w gs)"
proof (induction gs arbitrary: w)
  case Nil
  show ?case by simp
next
  case (Cons g gs)
  have "score w \<le> score (goal_step w g)" by (simp add: goal_step_score)
  also have "\<dots> \<le> score (foldl goal_step (goal_step w g) gs)" by (rule Cons.IH)
  finally show ?case by simp
qed

lemma distribution_bounds:
  "0 \<le> calculateGoalDistributionScore m gs \<and> calculateGoalDistributionScore m gs \<le> 25"
proof -
  have "0 \<le> score (walk_start m)" by (simp add: walk_start_def)
  also have "\<dots> \<le> score (foldl goal_step (walk_start m) gs)" by (rule foldl_goal_step_mono)
  finally show ?thesis
    by (simp add: calculateGoalDistributionScore_def maxGoalDistributionScore_def)
qed

text \<open>
  C6. At every goal of every walk (the state \<open>w\<close> reached after any goals \<open>pre\<close>, then
  the goal \<open>g\<close>), the comeback bonus and the equalizer bonus are never both awarded, and
  the goal adds 4 for a comeback, 3 for an equalizer and 2 for a late winner, so 0, 2,
  3, 4 or 6 in all. The late-winner bonus does stack on the comeback bonus: after an away
  goal and a home goal, a home goal at minute 85 earns 4 + 2.
\<close>

theorem bonuses_per_goal:
  "(let w = foldl goal_step (walk_start m) pre in
      \<not> (comeback_awarded w g \<and> equalizer_awarded w g)
      \<and> score (goal_step w g) = score w + (if comeback_awarded w g then 4 else 0)
           + (if equalizer_awarded w g then 3 else 0)
           + (if late_winner_awarded w g then 2 else 0)
      \<and> score (goal_step w g) - score w \<in> {0, 2, 3, 4, 6})
   \<and> (let w = foldl goal_step (walk_start m) [away_goal 10, home_goal 20] in
        comeback_awarded w (home_goal 85) \<and> late_winner_awarded w (home_goal 85)
        \<and> score (goal_step w (home_goal 85)) = score w + 4 + 2)"
proof -
  have ex: "let w = foldl goal_step (walk_start m) [away_goal 10, home_goal 20] in
        comeback_awarded w (home_goal 85) \<and> late_winner_awarded w (home_goal 85)
        \<and> score (goal_step w (home_goal 85)) = score w + 4 + 2"
    by (simp add: sample_defs goal_step_def walk_start_def comeback_awarded_def
        late_winner_awarded_def minute_ge_80_def Let_def)
  have all: "let w = foldl goal_step (walk_start m) pre in
      \<not> (comeback_awarded w g \<and> equalizer_awarded w g)
      \<and> score (goal_step w g) = score w + (if comeback_awarded w g then 4 else 0)
           + (if equalizer_awarded w g then 3 else 0)
           + (if late_winner_awarded w g then 2 else 0)
      \<and> score (goal_step w g) - score w \<in> {0, 2, 3, 4, 6}"
    using comeback_excludes_equalizer equalizer_excludes_late_winner
    by (simp add: Let_def goal_step_score)
  from all ex show ?thesis by simp
qed

lemma goal_step_key: "walk_key g = walk_key g' \<Longrightarrow> goal_step w g = goal_step w g'"
  by (simp add: walk_key_def goal_step_def)

lemma foldl_goal_step_key:
  "map walk_key gs = map walk_key gs' \<Longrightarrow> foldl goal_step w gs = foldl goal_step w gs'"
proof (induction gs arbitrary: gs' w)
  case Nil
  then show ?case by simp
next
  case (Cons g gs)
  then obtain g' gs'' where gs': "gs' = g' # gs''" by (cases gs') auto
  with Cons.prems have "walk_key g = walk_key g'" and "map walk_key gs = map walk_key gs''"
    by simp_all
  then show ?case
    using Cons.IH [of gs''] gs' by (simp add: goal_step_key [of g g'])
qed

text \<open>
  C5, as the code has it. \<open>calculateGoalDistributionScore\<close> walks the goals in the order
  it is given and does not sort them. Its result on a list equals its result on the list
  stably sorted by minute whenever the list is already in ascending minute order, and more
  generally whenever sorting leaves the sequence of scoring sides and of minute-80 flags
  as it was.
\<close>

theorem distribution_on_sorted_input:
  assumes "sorted (map minute_or_zero gs) \<or> map walk_key (sort_by_minute gs) = map walk_key gs"
  shows "calculateGoalDistributionScore m (sort_by_minute gs) = calculateGoalDistributionScore m gs"
proof -
  from assms have "map walk_key (sort_by_minute gs) = map walk_key gs"
    by (auto simp: sort_by_minute_def sort_key_id_if_sorted)
  then have "foldl goal_step (walk_start m) (sort_by_minute gs) = foldl goal_step (walk_start m) gs"
    by (rule foldl_goal_step_key)
  then show ?thesis
    by (simp add: calculateGoalDistributionScore_def)
qed

theorem distribution_on_sorted_input_witness:
  "sorted (map minute_or_zero [away_goal 10, home_goal 85])
   \<and> calculateGoalDistributionScore (sample_match 1 1 1 Missing)
        (sort_by_minute [away_goal 10, home_goal 85]) = 18
   \<and> calculateGoalDistributionScore (sample_match 1 1 1 Missing) [away_goal 10, home_goal 85] = 18"
  using distribution_on_sorted_input [of "[away_goal 10, home_goal 85]" "sample_match 1 1 1 Missing"]
  by (simp add: sample_defs sort_by_minute_def engine_defs)

text \<open>
  C5 as stated fails: for a 1-1 match given as the home goal at minute 85 followed by the
  away goal at minute 10, the walk in the given order awards a late winner and an
  equalizer (15 + 2 + 3 = 20), while the walk over the sorted list awards the equalizer
  only (15 + 3 = 18).
\<close>

theorem distribution_unsorted_counterexample:
  "calculateGoalDistributionScore (sample_match 1 1 1 Missing) [home_goal 85, away_goal 10] = 20
   \<and> calculateGoalDistributionScore (sample_match 1 1 1 Missing)
        (sort_by_minute [home_goal 85, away_goal 10]) = 18
   \<and> sort_by_minute [home_goal 85, away_goal 10] = [away_goal 10, home_goal 85]"
  by (simp add: sample_defs sort_by_minute_def engine_defs)

section \<open>The rating as a whole\<close>

lemma volume_bounds: "0 \<le> calculateGoalVolumeScore t \<and> calculateGoalVolumeScore t \<le> 50"
  by (simp add: calculateGoalVolumeScore_def)

lemma rate_invariants:
  "totalScore (rate m gs) = goalVolume (breakdown (rate m gs)) + goalTiming (breakdown (rate m gs))
      + goalDistribution (breakdown (rate m gs))
   \<and> 0 \<le> goalVolume (breakdown (rate m gs)) \<and> goalVolume (breakdown (rate m gs)) \<le> 50
   \<and> 0 \<le> goalTiming (breakdown (rate m gs)) \<and> goalTiming (breakdown (rate m gs)) \<le> 25
   \<and> 0 \<le> goalDistribution (breakdown (rate m gs)) \<and> goalDistribution (breakdown (rate m gs)) \<le> 25"
  using volume_bounds [of "homeScore m + awayScore m"] timing_bounds [of gs]
    distribution_bounds [of m gs]
  by (simp add: rate_def Let_def)

text \<open>
  C1. For every match with non-negative scores whose goals are a list (or absent),
  \<open>calculateRating\<close> returns a result whose total is exactly the sum of the three
  sub-scores, with the volume in 0..50, the timing in 0..25, the distribution in 0..25
  and the total in 0..100.
\<close>

theorem rating_invariants:
  assumes "0 \<le> homeScore m" and "0 \<le> awayScore m" and "goals m \<noteq> Null"
  shows "\<exists>r. calculateRating m = Inr r
     \<and> totalScore r = goalVolume (breakdown r) + goalTiming (breakdown r)
          + goalDistribution (breakdown r)
     \<and> 0 \<le> totalScore r \<and> totalScore r \<le> 100
     \<and> 0 \<le> goalVolume (breakdown r) \<and> goalVolume (breakdown r) \<le> 50
     \<and> 0 \<le> goalTiming (breakdown r) \<and> goalTiming (breakdown r) \<le> 25
     \<and> 0 \<le> goalDistribution (breakdown r) \<and> goalDistribution (breakdown r) \<le> 25"
proof -
  obtain gs where r: "calculateRating m = Inr (rate m gs)"
    using assms(3) by (cases "goals m") (simp_all add: calculateRating_def)
  show ?thesis
    using r rate_invariants [of m gs] by auto
qed

theorem rating_invariants_witness:
  "0 \<le> homeScore (sample_match 1 4 3 (Present scenario_A_goals))
   \<and> 0 \<le> awayScore (sample_match 1 4 3 (Present scenario_A_goals))
   \<and> goals (sample_match 1 4 3 (Present scenario_A_goals)) \<noteq> Null
   \<and> (\<exists>r. calculateRating (sample_match 1 4 3 (Present scenario_A_goals)) = Inr r
        \<and> breakdown r = \<lparr>goalVolume = 50, goalTiming = 8, goalDistribution = 25\<rparr>
        \<and> totalScore r = 83)"
  using rating_invariants [of "sample_match 1 4 3 (Present scenario_A_goals)"]
  by (simp add: sample_defs engine_defs)

lemma minute_ge_80_alt: "minute_ge_80 g = (80 \<le> minute_or_zero g)"
  by (simp add: minute_ge_80_def minute_or_zero_def split: option.splits)

lemma timing_step_alike: "scored_alike g g' \<Longrightarrow> timing_step s g = timing_step s g'"
  by (simp add: scored_alike_def timing_step_def)

lemma goal_step_alike: "scored_alike g g' \<Longrightarrow> goal_step w g = goal_step w g'"
  by (simp add: scored_alike_def goal_step_def minute_ge_80_alt)

lemma foldl_timing_alike:
  "list_all2 scored_alike gs gs' \<Longrightarrow> foldl timing_step s gs = foldl timing_step s gs'"
  by (induction gs gs' arbitrary: s rule: list_all2_induct) (simp_all add: timing_step_alike)

lemma foldl_goal_alike:
  "list_all2 scored_alike gs gs' \<Longrightarrow> foldl goal_step w gs = foldl goal_step w gs'"
  by (induction gs gs' arbitrary: w rule: list_all2_induct) (simp_all add: goal_step_alike)

lemma rate_alike:
  assumes "list_all2 scored_alike gs gs'"
  shows "rate m gs = rate m gs'"
proof -
  have "calculateGoalTimingScore gs = calculateGoalTimingScore gs'"
    using foldl_timing_alike [OF assms] by (simp add: calculateGoalTimingScore_def)
  moreover have "calculateGoalDistributionScore m gs = calculateGoalDistributionScore m gs'"
    using foldl_goal_alike [OF assms] by (simp add: calculateGoalDistributionScore_def)
  ultimately show ?thesis by (simp add: rate_def)
qed

lemma rate_goals_update: "rate (m\<lparr>goals := x\<rparr>) gs = rate m gs"
  by (simp add: rate_def calculateGoalDistributionScore_def walk_start_def)

lemma defaulted_alike: "list_all2 scored_alike (map minute_defaulted gs) gs"
  by (induction gs)
     (simp_all add: scored_alike_def minute_defaulted_def minute_or_zero_def split: option.splits)

lemma same_team_minute_alike:
  "list_all2 same_team_minute gs gs' \<Longrightarrow> list_all2 scored_alike gs gs'"
  by (erule list_all2_mono) (simp add: same_team_minute_def scored_alike_def minute_or_zero_def)

text \<open>
  C8. \<open>calculateRating\<close> returns a result, and no error, for every match whose goals are
  a list or absent; absent goals give the result of the empty list; filling every absent
  minute in as 0 changes nothing; and two goal lists that agree goal by goal on team and
  minute, whatever their scorers and types, give the same result.
\<close>

theorem rating_total:
  "(goals m \<noteq> Null \<longrightarrow> (\<exists>r. calculateRating m = Inr r))
   \<and> calculateRating (m\<lparr>goals := Missing\<rparr>) = calculateRating (m\<lparr>goals := Present []\<rparr>)
   \<and> calculateRating (m\<lparr>goals := Present (map minute_defaulted gs)\<rparr>)
       = calculateRating (m\<lparr>goals := Present gs\<rparr>)
   \<and> (\<forall>gs'. list_all2 same_team_minute gs gs' \<longrightarrow>
         calculateRating (m\<lparr>goals := Present gs'\<rparr>) = calculateRating (m\<lparr>goals := Present gs\<rparr>))"
proof -
  have total: "goals m \<noteq> Null \<longrightarrow> (\<exists>r. calculateRating m = Inr r)"
    by (cases "goals m") (simp_all add: calculateRating_def)
  have absent: "calculateRating (m\<lparr>goals := Missing\<rparr>) = calculateRating (m\<lparr>goals := Present []\<rparr>)"
    by (simp add: calculateRating_def rate_goals_update)
  have dflt: "calculateRating (m\<lparr>goals := Present (map minute_defaulted gs)\<rparr>)
         = calculateRating (m\<lparr>goals := Present gs\<rparr>)"
    using rate_alike [OF defaulted_alike, of m gs]
    by (simp add: calculateRating_def rate_goals_update)
  have info: "\<forall>gs'. list_all2 same_team_minute gs gs' \<longrightarrow>
           calculateRating (m\<lparr>goals := Present gs'\<rparr>) = calculateRating (m\<lparr>goals := Present gs\<rparr>)"
  proof (intro allI impI)
    fix gs' assume "list_all2 same_team_minute gs gs'"
    then have "rate m gs = rate m gs'"
      by (intro rate_alike same_team_minute_alike)
    then show "calculateRating (m\<lparr>goals := Present gs'\<rparr>) = calculateRating (m\<lparr>goals := Present gs\<rparr>)"
      by (simp add: calculateRating_def rate_goals_update)
  qed
  from total absent dflt info show ?thesis by blast
qed

theorem rating_total_witness:
  "goals (sample_match 1 1 0 Missing) \<noteq> Null
   \<and> (\<exists>r. calculateRating (sample_match 1 1 0 Missing) = Inr r)
   \<and> list_all2 same_team_minute [untimed_goal] [untimed_penalty]
   \<and> calculateRating (sample_match 1 1 0 (Present [untimed_penalty]))
       = calculateRating (sample_match 1 1 0 (Present [untimed_goal]))
   \<and> calculateRating (sample_match 1 1 0 (Present [untimed_goal]))
       = calculateRating (sample_match 1 1 0 (Present [home_goal 0]))"
  using rating_total [of "sample_match 1 1 0 Missing" "[untimed_goal]"]
  by (simp add: sample_defs same_team_minute_def engine_defs)

section \<open>Saving a match twice\<close>

lemma find_append_split:
  "find P (xs @ ys) = (case find P xs of None \<Rightarrow> find P ys | Some x \<Rightarrow> Some x)"
  by (induction xs) simp_all

lemma saveMatch_known:
  "find (\<lambda>m. api_id m = ident md) (matches db) = Some em \<Longrightarrow>
     saveMatch e md rd db = (Inr (row_id em), db)"
  by (simp add: saveMatch_def)

lemma saveMatch_fresh_store:
  "find (\<lambda>m. api_id m = ident md) (matches db) = None \<Longrightarrow>
     \<exists>nm nr. matches (snd (saveMatch e md rd db)) = matches db @ [nm]
       \<and> ratings (snd (saveMatch e md rd db)) = ratings db @ [nr]
       \<and> nextMatchId (snd (saveMatch e md rd db)) = nextMatchId db + 1
       \<and> api_id nm = ident md \<and> row_id nm = nextMatchId db \<and> match_id nr = nextMatchId db
       \<and> (fst (saveMatch e md rd db) = Inr (row_id nm) \<or> fst (saveMatch e md rd db) = Inl WriteError)"
  by (simp add: saveMatch_def saveData_def Let_def)

lemma saveMatch_leaves_record:
  "\<exists>em. find (\<lambda>m. api_id m = ident md) (matches (snd (saveMatch e md rd db))) = Some em
     \<and> (fst (saveMatch e md rd db) = Inr (row_id em) \<or> fst (saveMatch e md rd db) = Inl WriteError)"
proof (cases "find (\<lambda>m. api_id m = ident md) (matches db)")
  case None
  from saveMatch_fresh_store [OF None, of e rd] obtain nm nr where
    s: "matches (snd (saveMatch e md rd db)) = matches db @ [nm]"
    and a: "api_id nm = ident md"
    and r: "fst (saveMatch e md rd db) = Inr (row_id nm) \<or> fst (saveMatch e md rd db) = Inl WriteError"
    by blast
  have "find (\<lambda>m. api_id m = ident md) (matches (snd (saveMatch e md rd db))) = Some nm"
    using None a by (simp add: s find_append_split)
  with r show ?thesis by blast
next
  case (Some em)
  then show ?thesis by (simp add: saveMatch_known)
qed

lemma filter_distinct_key:
  "distinct (map f xs) \<Longrightarrow> find (\<lambda>m. f m = x) xs = Some em \<Longrightarrow> filter (\<lambda>m. f m = x) xs = [em]"
proof (induction xs)
  case Nil
  then show ?case by simp
next
  case (Cons y ys)
  show ?case
  proof (cases "f y = x")
    case True
    with Cons.prems have "em = y" and "x \<notin> f ` set ys" by auto
    then have "filter (\<lambda>m. f m = x) ys = []" by (auto simp: filter_empty_conv)
    with True \<open>em = y\<close> show ?thesis by simp
  next
    case False
    with Cons show ?thesis by simp
  qed
qed

lemma store_ok_counts:
  assumes ok: "store_ok db" and f: "find (\<lambda>m. api_id m = x) (matches db) = Some em"
  shows "length (stored_matches x db) = 1 \<and> length (stored_ratings x db) = 1"
proof -
  from ok have d: "distinct (map api_id (matches db))" by (simp add: store_ok_def)
  have sm: "stored_matches x db = [em]"
    unfolding stored_matches_def using d f by (rule filter_distinct_key)
  from f have "em \<in> set (matches db)" by (auto simp: find_Some_iff)
  with ok have "length (filter (\<lambda>r. match_id r = row_id em) (ratings db)) = 1"
    by (simp add: store_ok_def list_all_iff)
  then show ?thesis by (simp add: stored_ratings_def sm)
qed

lemma store_ok_saveMatch:
  assumes ok: "store_ok db"
  shows "store_ok (snd (saveMatch e md rd db))"
proof (cases "find (\<lambda>m. api_id m = ident md) (matches db)")
  case (Some em)
  with ok show ?thesis by (simp add: saveMatch_known)
next
  case None
  from saveMatch_fresh_store [OF None, of e rd] obtain nm nr where
    s: "matches (snd (saveMatch e md rd db)) = matches db @ [nm]"
       "ratings (snd (saveMatch e md rd db)) = ratings db @ [nr]"
       "nextMatchId (snd (saveMatch e md rd db)) = nextMatchId db + 1"
    and a: "api_id nm = ident md" and i: "row_id nm = nextMatchId db"
    and mi: "match_id nr = nextMatchId db"
    by blast
  from None have new: "ident md \<notin> api_id ` set (matches db)"
    by (auto simp: find_None_iff)
  from ok have d: "distinct (map api_id (matches db))"
    and ms: "\<forall>m\<in>set (matches db). row_id m < nextMatchId db
        \<and> length (filter (\<lambda>r. match_id r = row_id m) (ratings db)) = 1"
    and rs: "\<forall>r\<in>set (ratings db). match_id r < nextMatchId db"
    by (simp_all add: store_ok_def list_all_iff)
  have none: "filter (\<lambda>r. match_id r = nextMatchId db) (ratings db) = []"
    using rs by (auto simp: filter_empty_conv)
  have d': "distinct (map api_id (matches db @ [nm]))"
    using d new a by simp
  have ms': "\<forall>m\<in>set (matches db @ [nm]). row_id m < nextMatchId db + 1
        \<and> length (filter (\<lambda>r. match_id r = row_id m) (ratings db @ [nr])) = 1"
    using ms i mi none by auto
  have rs': "\<forall>r\<in>set (ratings db @ [nr]). match_id r < nextMatchId db + 1"
    using rs mi by auto
  show ?thesis
    using d' ms' rs' by (simp add: s store_ok_def list_all_iff)
qed

lemma store_ok_new: "store_ok (new_database v)"
  by (simp add: store_ok_def new_database_def)

text \<open>
  C9, as the code has it. For every store, a second \<open>saveMatch\<close> with the same external
  identifier leaves the store exactly as the first call left it and returns an internal
  id, the one the first call returned (when the first call failed on its file write, the
  id it had assigned). The store holds exactly one match record and one rating record for
  the identifier afterwards whenever it was consistent before the first call: no
  identifier stored twice, one rating for every stored match, no row referring to an id
  not yet handed out. The constructor's empty store is consistent, and \<open>saveMatch\<close> keeps
  a consistent store consistent.
\<close>

theorem saveMatch_twice:
  assumes same: "ident md' = ident md"
  shows "(case saveMatch e md rd db of (r1, db1) \<Rightarrow>
           case saveMatch e' md' rd' db1 of (r2, db2) \<Rightarrow>
             db2 = db1
             \<and> (\<exists>i. r2 = Inr i \<and> (r1 = Inr i \<or> r1 = Inl WriteError))
             \<and> (store_ok db \<longrightarrow>
                  length (stored_matches (ident md) db2) = 1
                  \<and> length (stored_ratings (ident md) db2) = 1
                  \<and> store_ok db2))"
proof -
  obtain r1 db1 where s1: "saveMatch e md rd db = (r1, db1)"
    by (cases "saveMatch e md rd db")
  from saveMatch_leaves_record [of md e rd db] s1 obtain em where
    f: "find (\<lambda>m. api_id m = ident md) (matches db1) = Some em"
    and r: "r1 = Inr (row_id em) \<or> r1 = Inl WriteError"
    by auto
  from f same have s2: "saveMatch e' md' rd' db1 = (Inr (row_id em), db1)"
    by (simp add: saveMatch_known)
  have cnt: "store_ok db \<longrightarrow> length (stored_matches (ident md) db1) = 1
      \<and> length (stored_ratings (ident md) db1) = 1 \<and> store_ok db1"
  proof
    assume "store_ok db"
    then have "store_ok db1" using store_ok_saveMatch [of db e md rd] s1 by simp
    with store_ok_counts [OF _ f] show "length (stored_matches (ident md) db1) = 1
      \<and> length (stored_ratings (ident md) db1) = 1 \<and> store_ok db1" by simp
  qed
  show ?thesis using r cnt by (simp add: s1 s2)
qed

theorem saveMatch_twice_witness:
  "store_ok (new_database False)
   \<and> ident (sample_match 7 1 0 Missing) = ident (sample_match 7 1 0 (Present []))
   \<and> fst (saveMatch (sample_io True) (sample_match 7 1 0 Missing) sample_rating
           (new_database False)) = Inr 1
   \<and> (case saveMatch (sample_io True) (sample_match 7 1 0 Missing) sample_rating
             (new_database False) of
        (r1, db1) \<Rightarrow>
          case saveMatch (sample_io True) (sample_match 7 1 0 (Present [])) sample_rating db1 of
            (r2, db2) \<Rightarrow>
              db2 = db1 \<and> r2 = Inr 1
              \<and> length (stored_matches 7 db2) = 1 \<and> length (stored_ratings 7 db2) = 1)"
  using saveMatch_twice [where md = "sample_match 7 1 0 Missing"
      and md' = "sample_match 7 1 0 (Present [])" and e = "sample_io True"
      and e' = "sample_io True" and rd = sample_rating and rd' = sample_rating
      and db = "new_database False"]
    store_ok_new [of False]
  by (auto simp: sample_match_def sample_io_def new_database_def saveMatch_def saveData_def
      split: prod.splits)

text \<open>
  C9 as stated fails on a store that holds the match without a rating: both calls find
  the match, return its id 1 and insert nothing, so no rating record is stored for the
  identifier, where the claim has exactly one.
\<close>

theorem saveMatch_twice_counterexample:
  "fst (saveMatch (sample_io True) (sample_match 7 1 0 Missing) sample_rating
         matches_only_store) = Inr 1
   \<and> snd (saveMatch (sample_io True) (sample_match 7 1 0 Missing) sample_rating
           (snd (saveMatch (sample_io True) (sample_match 7 1 0 Missing) sample_rating
                  matches_only_store))) = matches_only_store
   \<and> length (stored_matches 7
        (snd (saveMatch (sample_io True) (sample_match 7 1 0 Missing) sample_rating
           (snd (saveMatch (sample_io True) (sample_match 7 1 0 Missing) sample_rating
                  matches_only_store))))) = 1
   \<and> length (stored_ratings 7
        (snd (saveMatch (sample_io True) (sample_match 7 1 0 Missing) sample_rating
           (snd (saveMatch (sample_io True) (sample_match 7 1 0 Missing) sample_rating
                  matches_only_store))))) = 0"
  by (simp add: saveMatch_def matches_only_store_def sample_match_def stored_matches_def
      stored_ratings_def)

end
